theory Spec2Isabelle
  imports Main "HOL-Library.Sublist"
begin

section \<open>The service worker of the catalog application (public/sw.js)\<close>

text \<open>
  The worker intercepts the requests of the application, answers them from named cache
  stores or from the network, and manages the stores over its install and activate
  phases. The browser's objects are modelled by the parts the worker reads:
  \<^item> a parsed URL by the fields \<open>protocol\<close>, \<open>origin\<close>, \<open>pathname\<close> and
    \<open>searchParams\<close> of the \<open>URL\<close> object;
  \<^item> a request by its URL, \<open>method\<close> (the field \<open>req_method\<close>) and \<open>destination\<close>;
  \<^item> a response by \<open>status\<close>, \<open>headers\<close> and \<open>body\<close>;
  \<^item> the cache storage by the list of its named caches in creation order, each an
    association list from URL to response.

  \<open>DEBUG\<close> is \<open>false\<close> in the source, so \<open>log(...)\<close> prints nothing and is left
  out; the calls of \<open>console.error\<close> and \<open>console.warn\<close> are events of the trace. The
  \<open>sync\<close> listener touches neither the storage nor a request and is not modelled.
\<close>

subsection \<open>Requests and responses\<close>

record url =
  protocol :: string
  origin :: string
  pathname :: string
  searchParams :: "(string \<times> string) list"

record request =
  req_url :: url
  req_method :: string
  destination :: string

record response =
  status :: nat
  headers :: "(string \<times> string) list"
  body :: string

text \<open>\<open>response.ok\<close>: the status is in the range 200 to 299.\<close>

definition ok :: "response \<Rightarrow> bool" where
  "ok r = (200 \<le> status r \<and> status r \<le> 299)"

text \<open>Header names are compared without regard to the case of ASCII letters.\<close>

definition ascii_lower :: "char \<Rightarrow> char" where
  "ascii_lower c =
     (case map_of (zip ''ABCDEFGHIJKLMNOPQRSTUVWXYZ'' ''abcdefghijklmnopqrstuvwxyz'') c of
        Some l \<Rightarrow> l
      | None \<Rightarrow> c)"

definition has_header :: "(string \<times> string) list \<Rightarrow> string \<Rightarrow> bool" where
  "has_header hs name = list_ex (\<lambda>h. map ascii_lower (fst h) = map ascii_lower name) hs"

text \<open>\<open>new Response(body, { status, headers })\<close> with a text body: the status of an
  initialiser without one is 200, and the headers are those of the initialiser, to which
  the constructor adds the \<open>Content-Type\<close> of a text body when they name none.\<close>

definition new_Response :: "string \<Rightarrow> nat \<Rightarrow> (string \<times> string) list \<Rightarrow> response" where
  "new_Response b st hs =
     \<lparr>status = st,
      headers = (if has_header hs ''Content-Type'' then hs
                 else hs @ [(''Content-Type'', ''text/plain;charset=UTF-8'')]),
      body = b\<rparr>"

text \<open>\<open>String.prototype.startsWith\<close>, \<open>URLSearchParams.has\<close>, and \<open>RegExp.test\<close> for
  the patterns of the worker, which are literal texts without anchors: the test holds
  when the text occurs somewhere in the subject.\<close>

definition startsWith :: "string \<Rightarrow> string \<Rightarrow> bool" where
  "startsWith s p = prefix p s"

definition has :: "(string \<times> string) list \<Rightarrow> string \<Rightarrow> bool" where
  "has params k = (k \<in> set (map fst params))"

definition test :: "string \<Rightarrow> string \<Rightarrow> bool" where
  "test pattern s = sublist pattern s"

subsection \<open>Constants of the worker\<close>

definition CACHE_NAME :: string where
  "CACHE_NAME = ''ggcasecatalogs-v1''"

definition STATIC_CACHE :: string where
  "STATIC_CACHE = ''static-v1''"

definition DYNAMIC_CACHE :: string where
  "DYNAMIC_CACHE = ''dynamic-v1''"

definition STATIC_ASSETS :: "string list" where
  "STATIC_ASSETS = [''/'', ''/manifest.json'', ''/favicon.ico'']"

definition API_CACHE_PATTERNS :: "string list" where
  "API_CACHE_PATTERNS = [''/api/products'', ''/api/brands'', ''/api/categories'']"

subsection \<open>The fetch listener: which strategy answers a request\<close>

definition isApiRequest :: "url \<Rightarrow> bool" where
  "isApiRequest u = list_ex (\<lambda>pattern. test pattern (pathname u)) API_CACHE_PATTERNS"

datatype verdict = Skip | CacheFirst | NetworkFirst

text \<open>The listener returns without \<open>respondWith\<close> (\<open>Skip\<close>) or hands the request to
  one of the two strategies. The first argument is \<open>self.location.origin\<close>.\<close>

definition fetch_listener :: "string \<Rightarrow> request \<Rightarrow> verdict" where
  "fetch_listener location_origin request =
     (let u = req_url request in
      if \<not> startsWith (protocol u) ''http'' then Skip
      else if origin u \<noteq> location_origin \<and> \<not> isApiRequest u then Skip
      else if req_method request = ''GET'' then
        (if destination request = ''script'' \<or> destination request = ''style''
            \<or> destination request = ''image'' then CacheFirst
         else if list_ex (\<lambda>pattern. test pattern (pathname u)) API_CACHE_PATTERNS then NetworkFirst
         else if destination request = ''document'' then NetworkFirst
         else if origin u = location_origin then NetworkFirst
         else Skip)
      else Skip)"

definition isCacheableRequest :: "request \<Rightarrow> bool" where
  "isCacheableRequest request =
     (let u = req_url request in
      if \<not> startsWith (protocol u) ''http'' then False
      else if has (searchParams u) ''_t'' \<or> has (searchParams u) ''timestamp''
              \<or> has (searchParams u) ''nocache'' then False
      else if req_method request \<noteq> ''GET'' then False
      else True)"

subsection \<open>The cache storage\<close>

text \<open>
  A cache maps the URL of a request to the stored response. \<open>Cache.match\<close> answers
  only requests of method \<open>GET\<close>; \<open>Cache.put\<close> replaces the entry of the URL.
  \<open>CacheStorage.match\<close> asks the caches in the order of their creation and answers
  with the first entry found; \<open>CacheStorage.open\<close> creates a missing cache at the end.
\<close>

type_synonym cache = "(url \<times> response) list"

type_synonym cache_storage = "(string \<times> cache) list"

definition cache_match :: "cache \<Rightarrow> request \<Rightarrow> response option" where
  "cache_match c request = (if req_method request = ''GET'' then map_of c (req_url request) else None)"

definition cache_put :: "cache \<Rightarrow> request \<Rightarrow> response \<Rightarrow> cache" where
  "cache_put c request resp =
     (req_url request, resp) # filter (\<lambda>e. fst e \<noteq> req_url request) c"

fun caches_match :: "cache_storage \<Rightarrow> request \<Rightarrow> response option" where
  "caches_match [] request = None"
| "caches_match ((name, c) # cs) request =
     (case cache_match c request of
        Some resp \<Rightarrow> Some resp
      | None \<Rightarrow> caches_match cs request)"

definition caches_open :: "string \<Rightarrow> cache_storage \<Rightarrow> cache_storage" where
  "caches_open name cs = (if name \<in> set (map fst cs) then cs else cs @ [(name, [])])"

definition caches_keys :: "cache_storage \<Rightarrow> string list" where
  "caches_keys cs = map fst cs"

definition caches_delete :: "string \<Rightarrow> cache_storage \<Rightarrow> cache_storage" where
  "caches_delete name cs = filter (\<lambda>e. fst e \<noteq> name) cs"

definition storage_put :: "string \<Rightarrow> request \<Rightarrow> response \<Rightarrow> cache_storage \<Rightarrow> cache_storage" where
  "storage_put name request resp cs =
     map (\<lambda>e. if fst e = name then (fst e, cache_put (snd e) request resp) else e) cs"

text \<open>The entry of a request in the store of one name, and the stores created before
  the store of that name.\<close>

definition store_lookup :: "string \<Rightarrow> cache_storage \<Rightarrow> request \<Rightarrow> response option" where
  "store_lookup name cs request =
     (case map_of cs name of None \<Rightarrow> None | Some c \<Rightarrow> cache_match c request)"

definition earlier_stores :: "string \<Rightarrow> cache_storage \<Rightarrow> cache_storage" where
  "earlier_stores name cs = takeWhile (\<lambda>e. fst e \<noteq> name) cs"

subsection \<open>The worker's state and its environment\<close>

text \<open>
  The state is the cache storage and the trace of what the worker asked of the browser.
  The environment answers: \<open>net\<close> is \<open>fetch\<close> (\<open>None\<close> when the promise rejects);
  the \<open>_fails\<close> fields say which storage operations reject (\<open>StorageError\<close>; a failed
  \<open>addAll\<close> rejects with \<open>TypeError\<close>); \<open>location\<close> is \<open>self.location\<close>.

  A handler that awaits a promise lets the handlers of other requests run. The model
  lets them act at the wait for the network: \<open>meanwhile\<close> is what they do to the cache
  storage between the call of \<open>fetch\<close> and its answer. With \<open>meanwhile\<close> the identity
  the handler runs alone.
\<close>

datatype error = StorageError | TypeError

datatype event =
    Fetch request
  | CacheOpen string
  | CachePut string request response
  | CacheDelete string
  | SkipWaiting
  | ClientsClaim
  | ConsoleError string
  | ConsoleWarn string

record worker =
  caches :: cache_storage
  trace :: "event list"

record env =
  net :: "request \<Rightarrow> response option"
  meanwhile :: "cache_storage \<Rightarrow> cache_storage"
  open_fails :: "string \<Rightarrow> bool"
  put_fails :: "string \<Rightarrow> request \<Rightarrow> bool"
  keys_fails :: bool
  delete_fails :: "string \<Rightarrow> bool"
  location :: url

definition emit :: "event list \<Rightarrow> worker \<Rightarrow> worker" where
  "emit es w = w\<lparr>trace := trace w @ es\<rparr>"

text \<open>\<open>await fetch(request)\<close>: the call is recorded, the other handlers run, and the
  environment answers.\<close>

definition await_fetch :: "env \<Rightarrow> request \<Rightarrow> worker \<Rightarrow> response option \<times> worker" where
  "await_fetch env request w =
     (net env request, emit [Fetch request] (w\<lparr>caches := meanwhile env (caches w)\<rparr>))"

text \<open>The events that write to the cache storage.\<close>

fun is_cache_write :: "event \<Rightarrow> bool" where
  "is_cache_write (CacheOpen name) = True"
| "is_cache_write (CachePut name request resp) = True"
| "is_cache_write (CacheDelete name) = True"
| "is_cache_write e = False"

subsection \<open>The two strategies\<close>

text \<open>The inner \<open>try\<close> of both strategies: open the store, put the response, and on a
  rejection of either only warn.\<close>

definition try_cache :: "env \<Rightarrow> string \<Rightarrow> request \<Rightarrow> response \<Rightarrow> worker \<Rightarrow> worker" where
  "try_cache env name request resp w =
     (if open_fails env name then emit [ConsoleWarn ''Failed to cache response:''] w
      else
        let w1 = emit [CacheOpen name] (w\<lparr>caches := caches_open name (caches w)\<rparr>) in
        if put_fails env name request then emit [ConsoleWarn ''Failed to cache response:''] w1
        else emit [CachePut name request resp]
               (w1\<lparr>caches := storage_put name request resp (caches w1)\<rparr>))"

definition cacheFirst :: "env \<Rightarrow> request \<Rightarrow> worker \<Rightarrow> response \<times> worker" where
  "cacheFirst env request w =
     (case caches_match (caches w) request of
        Some cachedResponse \<Rightarrow> (cachedResponse, w)
      | None \<Rightarrow>
          (case await_fetch env request w of
             (Some networkResponse, w1) \<Rightarrow>
               (networkResponse,
                if ok networkResponse \<and> isCacheableRequest request
                then try_cache env STATIC_CACHE request networkResponse w1
                else w1)
           | (None, w1) \<Rightarrow>
               (let w2 = emit [ConsoleError ''Cache first strategy failed:''] w1 in
                case caches_match (caches w2) request of
                  Some cachedResponse \<Rightarrow> (cachedResponse, w2)
                | None \<Rightarrow> (new_Response ''Offline'' 503 [], w2))))"

definition offline_page :: string where
  \<open>offline_page = concat
     [''\<newline>'',
      ''        <!DOCTYPE html>\<newline>'',
      ''        <html>\<newline>'',
      ''        <head>\<newline>'',
      ''          <title>Offline - GG Case Catalogs</title>\<newline>'',
      ''          <style>\<newline>'',
      ''            body { font-family: Arial, sans-serif; text-align: center; padding: 2rem; }\<newline>'',
      ''            .offline-message { max-width: 400px; margin: 0 auto; }\<newline>'',
      ''            .retry-button { \<newline>'',
      ''              padding: 0.5rem 1rem; \<newline>'',
      ''              background: #3498db; \<newline>'',
      ''              color: white; \<newline>'',
      ''              border: none; \<newline>'',
      ''              border-radius: 4px; \<newline>'',
      ''              cursor: pointer; \<newline>'',
      ''              margin-top: 1rem;\<newline>'',
      ''            }\<newline>'',
      ''          </style>\<newline>'',
      ''        </head>\<newline>'',
      ''        <body>\<newline>'',
      ''          <div class="offline-message">\<newline>'',
      ''            <h1>You're Offline</h1>\<newline>'',
      ''            <p>Please check your internet connection and try again.</p>\<newline>'',
      ''            <button class="retry-button" onclick="location.reload()">Retry</button>\<newline>'',
      ''          </div>\<newline>'',
      ''        </body>\<newline>'',
      ''        </html>\<newline>'',
      ''      '']\<close>

definition networkFirst :: "env \<Rightarrow> request \<Rightarrow> worker \<Rightarrow> response \<times> worker" where
  "networkFirst env request w =
     (case await_fetch env request w of
        (Some networkResponse, w1) \<Rightarrow>
          (networkResponse,
           if ok networkResponse \<and> isCacheableRequest request
           then try_cache env DYNAMIC_CACHE request networkResponse w1
           else w1)
      | (None, w1) \<Rightarrow>
          (let w2 = emit [ConsoleWarn ''Network request failed, trying cache:''] w1 in
           case caches_match (caches w2) request of
             Some cachedResponse \<Rightarrow> (cachedResponse, w2)
           | None \<Rightarrow>
               if destination request = ''document''
               then (new_Response offline_page 200 [(''Content-Type'', ''text/html'')], w2)
               else (new_Response ''Offline'' 503 [], w2)))"

subsection \<open>The install and activate listeners\<close>

text \<open>
  \<open>settled\<close> is how the promise handed to \<open>event.waitUntil\<close> settles, which is what
  the browser learns of the phase. A chain is the promise before its final \<open>.catch\<close>;
  a rejected step skips the \<open>.then\<close> steps after it.
\<close>

datatype settled = Fulfilled | Rejected error

text \<open>The request that \<open>Cache.addAll\<close> makes of a path of the manifest, resolved
  against the worker's location.\<close>

definition asset_request :: "url \<Rightarrow> string \<Rightarrow> request" where
  "asset_request loc path =
     \<lparr>req_url = \<lparr>protocol = protocol loc, origin = origin loc, pathname = path,
                 searchParams = []\<rparr>,
      req_method = ''GET'', destination = ''''\<rparr>"

definition fetched_ok :: "response option \<Rightarrow> bool" where
  "fetched_ok a = (case a of Some resp \<Rightarrow> ok resp | None \<Rightarrow> False)"

definition put_fetched :: "env \<Rightarrow> string \<Rightarrow> request \<Rightarrow> worker \<Rightarrow> worker" where
  "put_fetched env name request w =
     (case net env request of
        Some resp \<Rightarrow>
          emit [CachePut name request resp]
            (w\<lparr>caches := storage_put name request resp (caches w)\<rparr>)
      | None \<Rightarrow> w)"

text \<open>\<open>Cache.addAll\<close> fetches every request and rejects, writing nothing, unless each
  fetch answers with an ok response.\<close>

definition cache_addAll :: "env \<Rightarrow> string \<Rightarrow> string list \<Rightarrow> worker \<Rightarrow> (error + unit) \<times> worker" where
  "cache_addAll env name paths w =
     (let requests = map (asset_request (location env)) paths;
          w1 = emit (map Fetch requests) w
      in if \<not> list_all (\<lambda>request. fetched_ok (net env request)) requests
         then (Inl TypeError, w1)
         else if list_ex (put_fails env name) requests then (Inl StorageError, w1)
         else (Inr (), fold (put_fetched env name) requests w1))"

definition install_chain :: "env \<Rightarrow> worker \<Rightarrow> (error + unit) \<times> worker" where
  "install_chain env w =
     (if open_fails env STATIC_CACHE then (Inl StorageError, w)
      else
        (case cache_addAll env STATIC_CACHE STATIC_ASSETS
                (emit [CacheOpen STATIC_CACHE]
                   (w\<lparr>caches := caches_open STATIC_CACHE (caches w)\<rparr>)) of
           (Inl e, w1) \<Rightarrow> (Inl e, w1)
         | (Inr u, w1) \<Rightarrow> (Inr (), emit [SkipWaiting] w1)))"

definition install_listener :: "env \<Rightarrow> worker \<Rightarrow> settled \<times> worker" where
  "install_listener env w =
     (case install_chain env w of
        (Inl e, w1) \<Rightarrow> (Fulfilled, emit [ConsoleError ''Service Worker install failed:''] w1)
      | (Inr u, w1) \<Rightarrow> (Fulfilled, w1))"

text \<open>\<open>caches.delete(cacheName)\<close>: the call is recorded, and the store goes unless the
  deletion rejects. \<open>Promise.all\<close> over the mapped list has started every deletion
  before any of them settles.\<close>

definition delete_one :: "env \<Rightarrow> string \<Rightarrow> worker \<Rightarrow> worker" where
  "delete_one env cacheName w =
     (let w1 = emit [CacheDelete cacheName] w in
      if delete_fails env cacheName then w1
      else w1\<lparr>caches := caches_delete cacheName (caches w1)\<rparr>)"

definition is_stale :: "string \<Rightarrow> bool" where
  "is_stale cacheName =
     (cacheName \<noteq> STATIC_CACHE \<and> cacheName \<noteq> DYNAMIC_CACHE \<and> cacheName \<noteq> CACHE_NAME)"

definition activate_chain :: "env \<Rightarrow> worker \<Rightarrow> (error + unit) \<times> worker" where
  "activate_chain env w =
     (if keys_fails env then (Inl StorageError, w)
      else
        let cacheNames = caches_keys (caches w);
            stale = filter is_stale cacheNames;
            w1 = fold (delete_one env) stale w
        in if list_ex (delete_fails env) stale then (Inl StorageError, w1)
           else (Inr (), emit [ClientsClaim] w1))"

definition activate_listener :: "env \<Rightarrow> worker \<Rightarrow> settled \<times> worker" where
  "activate_listener env w =
     (case activate_chain env w of
        (Inl e, w1) \<Rightarrow> (Fulfilled, emit [ConsoleError ''Service Worker activation failed:''] w1)
      | (Inr u, w1) \<Rightarrow> (Fulfilled, w1))"

subsection \<open>Notions used to state the properties\<close>

text \<open>The events a handler has added to the trace, and a storage none of whose stores
  holds an entry for the request.\<close>

definition new_events :: "worker \<Rightarrow> worker \<Rightarrow> event list" where
  "new_events w w' = drop (length (trace w)) (trace w')"

definition no_entry :: "cache_storage \<Rightarrow> request \<Rightarrow> bool" where
  "no_entry cs request = list_all (\<lambda>e. cache_match (snd e) request = None) cs"

subsection \<open>Example requests, stores and environments\<close>

definition app_origin :: string where
  "app_origin = ''https://shop.example''"

definition app_url :: "string \<Rightarrow> (string \<times> string) list \<Rightarrow> url" where
  "app_url path params =
     \<lparr>protocol = ''https:'', origin = app_origin, pathname = path, searchParams = params\<rparr>"

definition get_request :: "url \<Rightarrow> string \<Rightarrow> request" where
  "get_request u dest = \<lparr>req_url = u, req_method = ''GET'', destination = dest\<rparr>"

text \<open>A request of a page of a browser extension.\<close>

definition extension_request :: request where
  "extension_request =
     get_request \<lparr>protocol = ''chrome-extension:'', origin = ''chrome-extension://abcdefgh'',
                  pathname = ''/api/products'', searchParams = []\<rparr> ''script''"

definition ok_response :: "string \<Rightarrow> response" where
  "ok_response b = \<lparr>status = 200, headers = [], body = b\<rparr>"

text \<open>A network that rejects every fetch, and one that answers every fetch alike.\<close>

definition offline :: "request \<Rightarrow> response option" where
  "offline request = None"

definition answering :: "response \<Rightarrow> request \<Rightarrow> response option" where
  "answering resp request = Some resp"

text \<open>An environment in which no other handler runs and no storage operation rejects.\<close>

definition calm_env :: "(request \<Rightarrow> response option) \<Rightarrow> env" where
  "calm_env n =
     \<lparr>net = n, meanwhile = (\<lambda>cs. cs), open_fails = (\<lambda>name. False),
      put_fails = (\<lambda>name request. False), keys_fails = False,
      delete_fails = (\<lambda>name. False), location = app_url ''/sw.js'' []\<rparr>"

definition no_enumeration :: env where
  "no_enumeration = (calm_env offline)\<lparr>keys_fails := True\<rparr>"

definition idle :: "cache_storage \<Rightarrow> worker" where
  "idle cs = \<lparr>caches = cs, trace = []\<rparr>"

text \<open>A storage in which the store kept from an earlier version of the worker was created
  before the static store, and both hold an entry for the same script.\<close>

definition legacy_storage :: cache_storage where
  "legacy_storage =
     [(CACHE_NAME, [(app_url ''/app.js'' [], ok_response ''old'')]),
      (STATIC_CACHE, [(app_url ''/app.js'' [], ok_response ''new'')])]"

text \<open>The root document as the install phase stored it, and as a later navigation stored
  it in the dynamic store.\<close>

definition root_storage :: cache_storage where
  "root_storage =
     [(STATIC_CACHE, [(app_url ''/'' [], ok_response ''installed'')]),
      (DYNAMIC_CACHE, [(app_url ''/'' [], ok_response ''latest'')])]"

definition products_storage :: cache_storage where
  "products_storage =
     [(STATIC_CACHE, [(app_url ''/'' [], ok_response ''installed'')]),
      (DYNAMIC_CACHE, [(app_url ''/api/products'' [], ok_response ''[{\"id\":1}]'')])]"

definition api_only_dynamic :: cache_storage where
  "api_only_dynamic =
     [(STATIC_CACHE, []),
      (DYNAMIC_CACHE, [(app_url ''/api/brands/logo'' [], ok_response ''png'')])]"

text \<open>An environment whose other handlers, while the fetch is awaited, leave the storage
  with the entry of \<open>api_only_dynamic\<close>.\<close>

definition restoring_env :: env where
  "restoring_env = (calm_env offline)\<lparr>meanwhile := (\<lambda>cs. api_only_dynamic)\<rparr>"

definition three_stores :: cache_storage where
  "three_stores =
     [(''static-v1'', [(app_url ''/'' [], ok_response ''installed'')]),
      (''dynamic-v1'', []),
      (''old-v0'', [(app_url ''/'' [], ok_response ''previous'')])]"

section \<open>Properties\<close>

lemmas example_defs = ok_response_def calm_env_def offline_def idle_def app_url_def
  get_request_def app_origin_def CACHE_NAME_def STATIC_CACHE_def DYNAMIC_CACHE_def

lemmas strategy_defs = cacheFirst_def networkFirst_def await_fetch_def emit_def try_cache_def

subsection \<open>Lookups in the cache storage\<close>

lemma sublist_concat_member:
  assumes "x \<in> set xss" and "sublist s x"
  shows "sublist s (concat xss)"
proof -
  from assms(1) obtain ys zs where "xss = ys @ x # zs"
    by (auto dest: split_list)
  then have "concat xss = concat ys @ x @ concat zs" by simp
  then have "sublist x (concat xss)" by simp
  with assms(2) show ?thesis
    using sublist_order.order_trans by blast
qed

lemma offline_page_text: "sublist ''You're Offline'' offline_page"
  unfolding offline_page_def
proof (rule sublist_concat_member)
  show "sublist ''You're Offline'' ''            <h1>You're Offline</h1>\<newline>''"
    by (simp add: sublist_code)
qed simp

lemma caches_match_earlier:
  "caches_match (earlier_stores n cs) R = None \<Longrightarrow> store_lookup n cs R = Some resp
   \<Longrightarrow> caches_match cs R = Some resp"
proof (induction cs)
  case Nil
  then show ?case by (simp add: store_lookup_def)
next
  case (Cons e cs)
  obtain m c where e: "e = (m, c)" by (cases e)
  show ?case
  proof (cases "m = n")
    case True
    with Cons.prems e show ?thesis by (simp add: store_lookup_def)
  next
    case False
    with Cons.prems e have "cache_match c R = None"
      by (simp add: earlier_stores_def split: option.splits)
    moreover from False Cons.prems e have "caches_match (earlier_stores n cs) R = None"
      by (simp add: earlier_stores_def split: option.splits)
    moreover from False Cons.prems e have "store_lookup n cs R = Some resp"
      by (simp add: store_lookup_def)
    ultimately show ?thesis using Cons.IH e by simp
  qed
qed

lemma caches_match_any:
  "caches_match cs R \<noteq> None \<longleftrightarrow> list_ex (\<lambda>e. cache_match (snd e) R \<noteq> None) cs"
  by (induction cs) (auto split: option.splits)

lemma store_lookup_found:
  "store_lookup n cs R = Some resp \<Longrightarrow> caches_match cs R \<noteq> None"
  by (induction cs) (auto simp: store_lookup_def split: option.splits if_splits)

lemma caches_match_others:
  "caches_match (filter (\<lambda>e. fst e \<noteq> n) cs) R = None
   \<Longrightarrow> caches_match (earlier_stores n cs) R = None"
  by (induction cs) (auto simp: earlier_stores_def split: option.splits)

lemma no_entry_match: "no_entry cs R \<longleftrightarrow> caches_match cs R = None"
  by (induction cs) (auto simp: no_entry_def split: option.splits)

subsection \<open>The headers of the synthetic responses\<close>

lemma new_Response_headers:
  "headers (new_Response ''Offline'' 503 []) = [(''Content-Type'', ''text/plain;charset=UTF-8'')]"
  "headers (new_Response page 200 [(''Content-Type'', ''text/html'')])
     = [(''Content-Type'', ''text/html'')]"
  "headers (new_Response page 200 [(''content-type'', ''text/html'')])
     = [(''content-type'', ''text/html'')]"
  by (simp_all add: new_Response_def has_header_def ascii_lower_def)

subsection \<open>The strategies on a first visit\<close>

text \<open>
  A script that no store holds yet: the cache-first strategy returns the answer of the
  network and stores it in the static store, which it creates. An API answer goes to the
  dynamic store by the network-first strategy.
\<close>

lemma cacheFirst_first_visit:
  "cacheFirst (calm_env (answering (ok_response ''console.log(1)'')))
     (get_request (app_url ''/app.js'' []) ''script'') (idle [])
   = (ok_response ''console.log(1)'',
      \<lparr>caches = [(STATIC_CACHE, [(app_url ''/app.js'' [], ok_response ''console.log(1)'')])],
       trace = [Fetch (get_request (app_url ''/app.js'' []) ''script''),
                CacheOpen STATIC_CACHE,
                CachePut STATIC_CACHE (get_request (app_url ''/app.js'' []) ''script'')
                  (ok_response ''console.log(1)'')]\<rparr>)"
  by (simp add: strategy_defs caches_open_def storage_put_def cache_put_def ok_def
      isCacheableRequest_def startsWith_def has_def answering_def calm_env_def idle_def
      get_request_def app_url_def ok_response_def)

lemma networkFirst_first_visit:
  "networkFirst (calm_env (answering (ok_response ''[]'')))
     (get_request (app_url ''/api/brands'' []) '''') (idle [(STATIC_CACHE, [])])
   = (ok_response ''[]'',
      \<lparr>caches = [(STATIC_CACHE, []),
                 (DYNAMIC_CACHE, [(app_url ''/api/brands'' [], ok_response ''[]'')])],
       trace = [Fetch (get_request (app_url ''/api/brands'' []) ''''),
                CacheOpen DYNAMIC_CACHE,
                CachePut DYNAMIC_CACHE (get_request (app_url ''/api/brands'' []) '''')
                  (ok_response ''[]'')]\<rparr>)"
  by (simp add: strategy_defs caches_open_def storage_put_def cache_put_def ok_def
      isCacheableRequest_def startsWith_def has_def answering_def calm_env_def idle_def
      get_request_def app_url_def ok_response_def STATIC_CACHE_def DYNAMIC_CACHE_def)

subsection \<open>The fetch listener\<close>

lemma isApiRequest_inline:
  "list_ex (\<lambda>pattern. test pattern (pathname u)) API_CACHE_PATTERNS = isApiRequest u"
  by (simp add: isApiRequest_def)

text \<open>The cascade of the listener, by the tests the source writes: every GET request
  that passes the first two tests is handed to a strategy.\<close>

lemma fetch_listener_cascade:
  "fetch_listener loc r =
     (if \<not> startsWith (protocol (req_url r)) ''http'' then Skip
      else if origin (req_url r) \<noteq> loc \<and> \<not> isApiRequest (req_url r) then Skip
      else if req_method r \<noteq> ''GET'' then Skip
      else if destination r = ''script'' \<or> destination r = ''style'' \<or> destination r = ''image''
        then CacheFirst
      else NetworkFirst)"
  unfolding fetch_listener_def Let_def isApiRequest_inline by auto

lemma startsWith_http: "startsWith ''http:'' ''http''" "startsWith ''https:'' ''http''"
  by (simp_all add: startsWith_def)

text \<open>
  Claim C1. The listener tests the scheme with \<open>startsWith('http')\<close>; of the schemes
  that a fetch event carries, one that begins with \<open>http\<close> is \<open>http:\<close> or \<open>https:\<close>.
  For every such request the listener yields \<open>Skip\<close> when the scheme is not HTTP or
  HTTPS, \<open>Skip\<close> when the origin differs from the application's origin and the path
  matches no API pattern, and \<open>Skip\<close> when the method is not GET; otherwise cache-first
  when the destination is \<open>script\<close>, \<open>style\<close> or \<open>image\<close>, and network-first for every
  other eligible GET.
\<close>

theorem fetch_listener_verdict:
  assumes "startsWith (protocol (req_url r)) ''http''
           \<longrightarrow> protocol (req_url r) = ''http:'' \<or> protocol (req_url r) = ''https:''"
  shows "fetch_listener loc r =
     (if protocol (req_url r) \<noteq> ''http:'' \<and> protocol (req_url r) \<noteq> ''https:'' then Skip
      else if origin (req_url r) \<noteq> loc \<and> \<not> isApiRequest (req_url r) then Skip
      else if req_method r \<noteq> ''GET'' then Skip
      else if destination r = ''script'' \<or> destination r = ''style'' \<or> destination r = ''image''
        then CacheFirst
      else NetworkFirst)"
proof -
  have "startsWith (protocol (req_url r)) ''http''
        \<longleftrightarrow> protocol (req_url r) = ''http:'' \<or> protocol (req_url r) = ''https:''"
    using assms startsWith_http by auto
  then show ?thesis
    by (simp add: fetch_listener_cascade)
qed

theorem fetch_listener_verdict_witness:
  "\<not> startsWith (protocol (req_url extension_request)) ''http''
   \<and> protocol (req_url (get_request (app_url ''/app.js'' []) ''script'')) = ''https:''
   \<and> fetch_listener app_origin extension_request = Skip
   \<and> fetch_listener app_origin (get_request (app_url ''/app.js'' []) ''script'') = CacheFirst
   \<and> fetch_listener app_origin (get_request (app_url ''/wishlist'' []) ''document'') = NetworkFirst
   \<and> fetch_listener app_origin
        ((get_request (app_url ''/api/products'' []) '''')\<lparr>req_method := ''POST''\<rparr>) = Skip"
proof -
  have a: "startsWith (protocol (req_url extension_request)) ''http''
      \<longrightarrow> protocol (req_url extension_request) = ''http:''
          \<or> protocol (req_url extension_request) = ''https:''"
    by (simp add: extension_request_def get_request_def startsWith_def)
  have b: "startsWith (protocol (req_url (get_request (app_url ''/app.js'' []) ''script''))) ''http''
      \<longrightarrow> protocol (req_url (get_request (app_url ''/app.js'' []) ''script'')) = ''http:''
          \<or> protocol (req_url (get_request (app_url ''/app.js'' []) ''script'')) = ''https:''"
    by (simp add: get_request_def app_url_def)
  have c: "startsWith (protocol (req_url (get_request (app_url ''/wishlist'' []) ''document''))) ''http''
      \<longrightarrow> protocol (req_url (get_request (app_url ''/wishlist'' []) ''document'')) = ''http:''
          \<or> protocol (req_url (get_request (app_url ''/wishlist'' []) ''document'')) = ''https:''"
    by (simp add: get_request_def app_url_def)
  have d: "startsWith (protocol (req_url
             ((get_request (app_url ''/api/products'' []) '''')\<lparr>req_method := ''POST''\<rparr>))) ''http''
      \<longrightarrow> protocol (req_url
             ((get_request (app_url ''/api/products'' []) '''')\<lparr>req_method := ''POST''\<rparr>)) = ''http:''
          \<or> protocol (req_url
             ((get_request (app_url ''/api/products'' []) '''')\<lparr>req_method := ''POST''\<rparr>)) = ''https:''"
    by (simp add: get_request_def app_url_def)
  from fetch_listener_verdict [OF a, of app_origin] fetch_listener_verdict [OF b, of app_origin]
    fetch_listener_verdict [OF c, of app_origin] fetch_listener_verdict [OF d, of app_origin]
  show ?thesis
    by (simp add: extension_request_def get_request_def app_url_def startsWith_def)
qed

subsection \<open>The cache-first strategy\<close>

text \<open>
  The strategy asks the whole cache storage, not the static store. With a store created
  before the static store that holds another response for the same script, the hit is
  answered with that response, not with the entry of the static store.
\<close>

theorem cacheFirst_static_hit_counterexample:
  "store_lookup STATIC_CACHE legacy_storage (get_request (app_url ''/app.js'' []) ''script'')
     = Some (ok_response ''new'')
   \<and> fst (cacheFirst (calm_env offline) (get_request (app_url ''/app.js'' []) ''script'')
           (idle legacy_storage)) = ok_response ''old''
   \<and> ok_response ''old'' \<noteq> ok_response ''new''"
  by (simp add: legacy_storage_def store_lookup_def cache_match_def cacheFirst_def example_defs)

text \<open>
  Claim C2, as the code has it. For a request with an entry in the static store, the
  strategy returns a stored response unchanged and leaves the state as it was, so no
  fetch is issued and nothing is written. The response is the first entry for the request
  in the order in which the stores were created; it is the entry of the static store
  when no store created before the static store holds an entry for the request.
\<close>

theorem cacheFirst_hit_no_fetch:
  assumes "store_lookup STATIC_CACHE (caches w) R = Some resp"
  shows "caches_match (caches w) R = Some (fst (cacheFirst env R w))
       \<and> snd (cacheFirst env R w) = w
       \<and> (caches_match (earlier_stores STATIC_CACHE (caches w)) R = None
            \<longrightarrow> fst (cacheFirst env R w) = resp)"
proof -
  from assms obtain found where found: "caches_match (caches w) R = Some found"
    using store_lookup_found by fastforce
  then have run: "cacheFirst env R w = (found, w)"
    by (simp add: cacheFirst_def)
  have "found = resp" if "caches_match (earlier_stores STATIC_CACHE (caches w)) R = None"
    using caches_match_earlier [OF that assms] found by simp
  with found run show ?thesis by simp
qed

theorem cacheFirst_hit_no_fetch_witness:
  "store_lookup STATIC_CACHE legacy_storage (get_request (app_url ''/app.js'' []) ''script'')
     = Some (ok_response ''new'')
   \<and> cacheFirst (calm_env offline) (get_request (app_url ''/app.js'' []) ''script'')
        (idle legacy_storage) = (ok_response ''old'', idle legacy_storage)
   \<and> store_lookup STATIC_CACHE root_storage (get_request (app_url ''/'' []) ''image'')
     = Some (ok_response ''installed'')
   \<and> caches_match (earlier_stores STATIC_CACHE root_storage) (get_request (app_url ''/'' []) ''image'') = None
   \<and> cacheFirst (calm_env offline) (get_request (app_url ''/'' []) ''image'')
        (idle root_storage) = (ok_response ''installed'', idle root_storage)"
proof -
  have a: "store_lookup STATIC_CACHE (caches (idle legacy_storage))
             (get_request (app_url ''/app.js'' []) ''script'') = Some (ok_response ''new'')"
    by (simp add: legacy_storage_def store_lookup_def cache_match_def example_defs)
  have b: "store_lookup STATIC_CACHE (caches (idle root_storage))
             (get_request (app_url ''/'' []) ''image'') = Some (ok_response ''installed'')"
    by (simp add: root_storage_def store_lookup_def cache_match_def example_defs)
  have c: "caches_match (earlier_stores STATIC_CACHE (caches (idle root_storage)))
             (get_request (app_url ''/'' []) ''image'') = None"
    by (simp add: root_storage_def earlier_stores_def example_defs)
  have d: "caches_match (caches (idle legacy_storage))
             (get_request (app_url ''/app.js'' []) ''script'') = Some (ok_response ''old'')"
    by (simp add: legacy_storage_def cache_match_def example_defs)
  from cacheFirst_hit_no_fetch [OF a, of "calm_env offline"] d
    cacheFirst_hit_no_fetch [OF b, of "calm_env offline"] a b c
  show ?thesis
    by (simp add: idle_def prod_eq_iff)
qed

subsection \<open>The network-first strategy\<close>

text \<open>
  The fallback also asks the whole cache storage. The root document is in the static
  store since the install phase and, more recently, in the dynamic store; offline, the
  strategy answers with the entry of the static store.
\<close>

theorem networkFirst_dynamic_fallback_counterexample:
  "offline (get_request (app_url ''/'' []) ''document'') = None
   \<and> store_lookup DYNAMIC_CACHE root_storage (get_request (app_url ''/'' []) ''document'')
     = Some (ok_response ''latest'')
   \<and> fst (networkFirst (calm_env offline) (get_request (app_url ''/'' []) ''document'')
           (idle root_storage)) = ok_response ''installed''
   \<and> ok_response ''installed'' \<noteq> ok_response ''latest''"
  by (simp add: root_storage_def store_lookup_def cache_match_def strategy_defs example_defs)

text \<open>
  Claim C3, as the code has it. When the fetch rejects and the dynamic store holds an
  entry for the request, the strategy returns a stored entry: the first entry for the
  request in the order in which the stores were created, which is the entry of the
  dynamic store when no store created before it holds an entry for the request.
\<close>

theorem networkFirst_fallback_first_entry:
  assumes "net env R = None"
    and "store_lookup DYNAMIC_CACHE (meanwhile env (caches w)) R = Some resp"
  shows "caches_match (meanwhile env (caches w)) R = Some (fst (networkFirst env R w))
       \<and> (caches_match (earlier_stores DYNAMIC_CACHE (meanwhile env (caches w))) R = None
            \<longrightarrow> fst (networkFirst env R w) = resp)"
proof -
  from assms(2) obtain found where found: "caches_match (meanwhile env (caches w)) R = Some found"
    using store_lookup_found by fastforce
  with assms(1) have run: "fst (networkFirst env R w) = found"
    by (simp add: strategy_defs)
  have "found = resp"
    if "caches_match (earlier_stores DYNAMIC_CACHE (meanwhile env (caches w))) R = None"
    using caches_match_earlier [OF that assms(2)] found by simp
  with found run show ?thesis by simp
qed

theorem networkFirst_fallback_first_entry_witness:
  "net (calm_env offline) (get_request (app_url ''/api/products'' []) '''') = None
   \<and> store_lookup DYNAMIC_CACHE products_storage (get_request (app_url ''/api/products'' []) '''')
       = Some (ok_response ''[{\"id\":1}]'')
   \<and> caches_match (earlier_stores DYNAMIC_CACHE products_storage)
        (get_request (app_url ''/api/products'' []) '''') = None
   \<and> fst (networkFirst (calm_env offline) (get_request (app_url ''/api/products'' []) '''')
           (idle products_storage)) = ok_response ''[{\"id\":1}]''"
proof -
  have a: "net (calm_env offline) (get_request (app_url ''/api/products'' []) '''') = None"
    by (simp add: calm_env_def offline_def)
  have b: "store_lookup DYNAMIC_CACHE
             (meanwhile (calm_env offline) (caches (idle products_storage)))
             (get_request (app_url ''/api/products'' []) '''') = Some (ok_response ''[{\"id\":1}]'')"
    by (simp add: products_storage_def store_lookup_def cache_match_def example_defs)
  have c: "caches_match (earlier_stores DYNAMIC_CACHE
             (meanwhile (calm_env offline) (caches (idle products_storage))))
             (get_request (app_url ''/api/products'' []) '''') = None"
    by (simp add: products_storage_def earlier_stores_def cache_match_def example_defs)
  from networkFirst_fallback_first_entry [OF a b] a b c show ?thesis
    by (simp add: idle_def calm_env_def)
qed

text \<open>
  Claim C6. For a request whose destination is \<open>document\<close>, when the fetch rejects and
  no store holds an entry for the request, the network-first strategy returns the
  synthetic page: status 200, \<open>Content-Type\<close> \<open>text/html\<close>, and a body that contains the
  text \<open>You're Offline\<close>.
\<close>

theorem networkFirst_offline_document:
  assumes "destination R = ''document''"
    and "net env R = None"
    and "no_entry (meanwhile env (caches w)) R"
  shows "status (fst (networkFirst env R w)) = 200
       \<and> map_of (headers (fst (networkFirst env R w))) ''Content-Type'' = Some ''text/html''
       \<and> sublist ''You're Offline'' (body (fst (networkFirst env R w)))"
  using assms offline_page_text by (simp add: strategy_defs new_Response_def no_entry_match)

theorem networkFirst_offline_document_witness:
  "destination (get_request (app_url ''/'' []) ''document'') = ''document''
   \<and> net (calm_env offline) (get_request (app_url ''/'' []) ''document'') = None
   \<and> no_entry (meanwhile (calm_env offline) (caches (idle []))) (get_request (app_url ''/'' []) ''document'')
   \<and> status (fst (networkFirst (calm_env offline) (get_request (app_url ''/'' []) ''document'') (idle []))) = 200
   \<and> map_of (headers (fst (networkFirst (calm_env offline) (get_request (app_url ''/'' []) ''document'') (idle []))))
        ''Content-Type'' = Some ''text/html''
   \<and> sublist ''You're Offline''
        (body (fst (networkFirst (calm_env offline) (get_request (app_url ''/'' []) ''document'') (idle []))))"
proof -
  have a: "destination (get_request (app_url ''/'' []) ''document'') = ''document''"
    by (simp add: get_request_def)
  have b: "net (calm_env offline) (get_request (app_url ''/'' []) ''document'') = None"
    by (simp add: calm_env_def offline_def)
  have c: "no_entry (meanwhile (calm_env offline) (caches (idle [])))
             (get_request (app_url ''/'' []) ''document'')"
    by (simp add: calm_env_def idle_def no_entry_def)
  from networkFirst_offline_document [OF a b c] a b c show ?thesis by simp
qed

subsection \<open>Both strategies\<close>

text \<open>
  Claim C7. For a request whose destination is not \<open>document\<close>, when the fetch rejects
  and no store holds an entry for the request (neither when the handler starts nor when
  the fetch has failed), both strategies return the same synthetic response, of status
  503 and body \<open>Offline\<close>.
\<close>

theorem offline_unavailable_response:
  assumes "destination R \<noteq> ''document''"
    and "net env R = None"
    and "no_entry (caches w) R"
    and "no_entry (meanwhile env (caches w)) R"
  shows "fst (cacheFirst env R w) = new_Response ''Offline'' 503 []
       \<and> fst (networkFirst env R w) = fst (cacheFirst env R w)
       \<and> status (fst (cacheFirst env R w)) = 503 \<and> body (fst (cacheFirst env R w)) = ''Offline''
       \<and> status (fst (networkFirst env R w)) = 503 \<and> body (fst (networkFirst env R w)) = ''Offline''"
  using assms by (simp add: strategy_defs new_Response_def no_entry_match)

theorem offline_unavailable_response_witness:
  "destination (get_request (app_url ''/logo.png'' []) ''image'') \<noteq> ''document''
   \<and> net (calm_env offline) (get_request (app_url ''/logo.png'' []) ''image'') = None
   \<and> no_entry (caches (idle root_storage)) (get_request (app_url ''/logo.png'' []) ''image'')
   \<and> fst (cacheFirst (calm_env offline) (get_request (app_url ''/logo.png'' []) ''image'') (idle root_storage))
       = \<lparr>status = 503, headers = [(''Content-Type'', ''text/plain;charset=UTF-8'')],
          body = ''Offline''\<rparr>
   \<and> fst (networkFirst (calm_env offline) (get_request (app_url ''/logo.png'' []) ''image'') (idle root_storage))
       = \<lparr>status = 503, headers = [(''Content-Type'', ''text/plain;charset=UTF-8'')],
          body = ''Offline''\<rparr>"
proof -
  have a: "destination (get_request (app_url ''/logo.png'' []) ''image'') \<noteq> ''document''"
    by (simp add: get_request_def)
  have b: "net (calm_env offline) (get_request (app_url ''/logo.png'' []) ''image'') = None"
    by (simp add: calm_env_def offline_def)
  have c: "no_entry (caches (idle root_storage))
             (get_request (app_url ''/logo.png'' []) ''image'')"
    by (simp add: root_storage_def cache_match_def no_entry_def example_defs)
  have d: "no_entry (meanwhile (calm_env offline) (caches (idle root_storage)))
             (get_request (app_url ''/logo.png'' []) ''image'')"
    using c by (simp add: calm_env_def)
  from offline_unavailable_response [OF a b c d] a b c show ?thesis
    by (simp add: new_Response_def has_header_def)
qed

lemma marker_not_cacheable:
  "has (searchParams (req_url R)) ''_t'' \<or> has (searchParams (req_url R)) ''timestamp''
     \<or> has (searchParams (req_url R)) ''nocache'' \<Longrightarrow> \<not> isCacheableRequest R"
  by (simp add: isCacheableRequest_def Let_def)

text \<open>
  Claim C8. For a request whose query has one of the parameters \<open>_t\<close>, \<open>timestamp\<close> or
  \<open>nocache\<close>, a response of the network is returned to the caller (by the cache-first
  strategy when the storage has no entry for the request), and neither strategy writes
  to the cache storage: the storage after the handler is the storage before it, but for
  what other handlers did while the fetch was awaited, and the handler has added no
  writing event to the trace.
\<close>

theorem no_cache_marker_no_write:
  assumes "has (searchParams (req_url R)) ''_t'' \<or> has (searchParams (req_url R)) ''timestamp''
     \<or> has (searchParams (req_url R)) ''nocache''"
  shows "(net env R = Some resp \<longrightarrow>
            fst (networkFirst env R w) = resp
          \<and> (caches_match (caches w) R = None \<longrightarrow> fst (cacheFirst env R w) = resp))
       \<and> caches (snd (networkFirst env R w)) = meanwhile env (caches w)
       \<and> caches (snd (cacheFirst env R w))
           = (if caches_match (caches w) R = None then meanwhile env (caches w) else caches w)
       \<and> filter is_cache_write (trace (snd (networkFirst env R w))) = filter is_cache_write (trace w)
       \<and> filter is_cache_write (trace (snd (cacheFirst env R w))) = filter is_cache_write (trace w)
       \<and> (meanwhile env (caches w) = caches w \<longrightarrow>
            caches (snd (networkFirst env R w)) = caches w
          \<and> caches (snd (cacheFirst env R w)) = caches w)"
proof -
  have nc: "\<not> isCacheableRequest R" using assms by (rule marker_not_cacheable)
  have n1: "caches (snd (networkFirst env R w)) = meanwhile env (caches w)"
    using nc by (simp add: networkFirst_def await_fetch_def emit_def Let_def split: option.splits)
  have n2: "filter is_cache_write (trace (snd (networkFirst env R w))) = filter is_cache_write (trace w)"
    using nc by (simp add: networkFirst_def await_fetch_def emit_def Let_def split: option.splits)
  have n3: "net env R = Some resp \<Longrightarrow> fst (networkFirst env R w) = resp"
    by (simp add: networkFirst_def await_fetch_def)
  have c1: "caches (snd (cacheFirst env R w))
           = (if caches_match (caches w) R = None then meanwhile env (caches w) else caches w)"
    using nc by (simp add: cacheFirst_def await_fetch_def emit_def Let_def split: option.splits)
  have c2: "filter is_cache_write (trace (snd (cacheFirst env R w))) = filter is_cache_write (trace w)"
    using nc by (simp add: cacheFirst_def await_fetch_def emit_def Let_def split: option.splits)
  have c3: "net env R = Some resp \<Longrightarrow> caches_match (caches w) R = None
              \<Longrightarrow> fst (cacheFirst env R w) = resp"
    by (simp add: cacheFirst_def await_fetch_def)
  from n1 n2 n3 c1 c2 c3 show ?thesis by simp
qed

theorem no_cache_marker_no_write_witness:
  "has (searchParams (req_url (get_request (app_url ''/api/products'' [(''nocache'', ''1'')]) ''''))) ''nocache''
   \<and> net (calm_env (answering (ok_response ''[]''))) (get_request (app_url ''/api/products'' [(''nocache'', ''1'')]) '''')
       = Some (ok_response ''[]'')
   \<and> fst (networkFirst (calm_env (answering (ok_response ''[]'')))
           (get_request (app_url ''/api/products'' [(''nocache'', ''1'')]) '''') (idle root_storage))
       = ok_response ''[]''
   \<and> caches (snd (networkFirst (calm_env (answering (ok_response ''[]'')))
           (get_request (app_url ''/api/products'' [(''nocache'', ''1'')]) '''') (idle root_storage)))
       = root_storage
   \<and> fst (cacheFirst (calm_env (answering (ok_response ''[]'')))
           (get_request (app_url ''/api/products'' [(''nocache'', ''1'')]) '''') (idle root_storage))
       = ok_response ''[]''
   \<and> caches (snd (cacheFirst (calm_env (answering (ok_response ''[]'')))
           (get_request (app_url ''/api/products'' [(''nocache'', ''1'')]) '''') (idle root_storage)))
       = root_storage"
proof -
  let ?R = "get_request (app_url ''/api/products'' [(''nocache'', ''1'')]) ''''"
  let ?env = "calm_env (answering (ok_response ''[]''))"
  have a: "has (searchParams (req_url ?R)) ''_t'' \<or> has (searchParams (req_url ?R)) ''timestamp''
     \<or> has (searchParams (req_url ?R)) ''nocache''"
    by (simp add: has_def get_request_def app_url_def)
  have b: "net ?env ?R = Some (ok_response ''[]'')"
    by (simp add: calm_env_def answering_def)
  have c: "caches_match (caches (idle root_storage)) ?R = None"
    by (simp add: root_storage_def cache_match_def example_defs)
  have d: "meanwhile ?env (caches (idle root_storage)) = caches (idle root_storage)"
    by (simp add: calm_env_def)
  from no_cache_marker_no_write [OF a, of ?env "ok_response ''[]''" "idle root_storage"] b c d
  show ?thesis
    by (simp add: idle_def has_def get_request_def app_url_def)
qed

text \<open>
  Claim C10. Every lookup of the strategies asks all stores: a lookup finds an entry
  exactly when some store holds one. So the first lookup of the cache-first strategy, its
  lookup after a failed fetch, and the lookup of the network-first strategy after a failed
  fetch each return the entry found in whichever store holds it. In particular the
  cache-first strategy returns an entry that only the dynamic store holds, leaving the
  state as it was (no fetch), and the network-first strategy, offline, returns an entry
  that only the static store holds.
\<close>

theorem lookups_search_every_store:
  "(caches_match cs R \<noteq> None \<longleftrightarrow> list_ex (\<lambda>e. cache_match (snd e) R \<noteq> None) cs)
   \<and> (caches_match (caches w) R = Some resp \<longrightarrow> cacheFirst env R w = (resp, w))
   \<and> (caches_match (caches w) R = None \<and> net env R = None
        \<and> caches_match (meanwhile env (caches w)) R = Some resp
      \<longrightarrow> fst (cacheFirst env R w) = resp)
   \<and> (net env R = None \<and> caches_match (meanwhile env (caches w)) R = Some resp
      \<longrightarrow> fst (networkFirst env R w) = resp)
   \<and> (store_lookup DYNAMIC_CACHE (caches w) R = Some resp
        \<and> caches_match (filter (\<lambda>e. fst e \<noteq> DYNAMIC_CACHE) (caches w)) R = None
      \<longrightarrow> cacheFirst env R w = (resp, w))
   \<and> (net env R = None
        \<and> store_lookup STATIC_CACHE (meanwhile env (caches w)) R = Some resp
        \<and> caches_match (filter (\<lambda>e. fst e \<noteq> STATIC_CACHE) (meanwhile env (caches w))) R = None
      \<longrightarrow> fst (networkFirst env R w) = resp)"
proof -
  have hit: "cacheFirst env R w = (r, w)" if "caches_match (caches w) R = Some r" for r
    using that by (simp add: cacheFirst_def)
  have cf_fallback: "fst (cacheFirst env R w) = r"
    if "caches_match (caches w) R = None" "net env R = None"
      "caches_match (meanwhile env (caches w)) R = Some r" for r
    using that by (simp add: strategy_defs)
  have nf_fallback: "fst (networkFirst env R w) = r"
    if "net env R = None" "caches_match (meanwhile env (caches w)) R = Some r" for r
    using that by (simp add: strategy_defs)
  have only: "caches_match cs' R = Some r"
    if "store_lookup n cs' R = Some r" "caches_match (filter (\<lambda>e. fst e \<noteq> n) cs') R = None"
    for n cs' r
    using that caches_match_earlier caches_match_others by blast
  show ?thesis
    using caches_match_any [of cs R] hit cf_fallback nf_fallback only by blast
qed

theorem lookups_search_every_store_witness:
  "store_lookup DYNAMIC_CACHE api_only_dynamic (get_request (app_url ''/api/brands/logo'' []) ''image'')
     = Some (ok_response ''png'')
   \<and> caches_match (filter (\<lambda>e. fst e \<noteq> DYNAMIC_CACHE) api_only_dynamic)
       (get_request (app_url ''/api/brands/logo'' []) ''image'') = None
   \<and> cacheFirst (calm_env offline) (get_request (app_url ''/api/brands/logo'' []) ''image'')
       (idle api_only_dynamic) = (ok_response ''png'', idle api_only_dynamic)
   \<and> store_lookup STATIC_CACHE root_storage (get_request (app_url ''/'' []) ''document'')
     = Some (ok_response ''installed'')
   \<and> fst (networkFirst (calm_env offline) (get_request (app_url ''/'' []) ''document'')
       (idle [(STATIC_CACHE, [(app_url ''/'' [], ok_response ''installed'')]), (DYNAMIC_CACHE, [])]))
     = ok_response ''installed''
   \<and> caches_match [] (get_request (app_url ''/api/brands/logo'' []) ''image'') = None
   \<and> fst (cacheFirst restoring_env (get_request (app_url ''/api/brands/logo'' []) ''image'') (idle []))
     = ok_response ''png''"
proof -
  let ?logo = "get_request (app_url ''/api/brands/logo'' []) ''image''"
  let ?root = "get_request (app_url ''/'' []) ''document''"
  let ?st = "[(STATIC_CACHE, [(app_url ''/'' [], ok_response ''installed'')]), (DYNAMIC_CACHE, [])]"
  have a: "store_lookup DYNAMIC_CACHE (caches (idle api_only_dynamic)) ?logo = Some (ok_response ''png'')"
    by (simp add: api_only_dynamic_def store_lookup_def cache_match_def example_defs)
  have b: "caches_match (filter (\<lambda>e. fst e \<noteq> DYNAMIC_CACHE) (caches (idle api_only_dynamic))) ?logo = None"
    by (simp add: api_only_dynamic_def cache_match_def example_defs)
  have c: "net (calm_env offline) ?root = None"
    by (simp add: calm_env_def offline_def)
  have d: "store_lookup STATIC_CACHE (meanwhile (calm_env offline) (caches (idle ?st))) ?root
             = Some (ok_response ''installed'')"
    by (simp add: store_lookup_def cache_match_def example_defs)
  have e: "caches_match (filter (\<lambda>e. fst e \<noteq> STATIC_CACHE)
             (meanwhile (calm_env offline) (caches (idle ?st)))) ?root = None"
    by (simp add: cache_match_def example_defs)
  have f: "caches_match (caches (idle [])) ?logo = None \<and> net restoring_env ?logo = None
           \<and> caches_match (meanwhile restoring_env (caches (idle []))) ?logo = Some (ok_response ''png'')"
    by (simp add: restoring_env_def api_only_dynamic_def cache_match_def example_defs)
  have g: "store_lookup STATIC_CACHE root_storage ?root = Some (ok_response ''installed'')"
    by (simp add: root_storage_def store_lookup_def cache_match_def example_defs)
  from lookups_search_every_store [of "[]" ?logo "idle api_only_dynamic" "ok_response ''png''" "calm_env offline"]
    lookups_search_every_store [of "[]" ?root "idle ?st" "ok_response ''installed''" "calm_env offline"]
    lookups_search_every_store [of "[]" ?logo "idle []" "ok_response ''png''" restoring_env]
    a b c d e f g
  show ?thesis
    by (simp add: idle_def)
qed

lemma trace_fold_delete:
  "trace (fold (delete_one env) ns w) = trace w @ map CacheDelete ns"
  by (induction ns arbitrary: w) (simp_all add: delete_one_def emit_def Let_def)

lemma caches_fold_delete:
  "caches (fold (delete_one env) ns w)
     = filter (\<lambda>e. fst e \<notin> set ns \<or> delete_fails env (fst e)) (caches w)"
proof (induction ns arbitrary: w)
  case Nil
  then show ?case by simp
next
  case (Cons n ns)
  have "filter (\<lambda>e. fst e \<notin> set ns \<or> delete_fails env (fst e)) (caches (delete_one env n w))
      = filter (\<lambda>e. fst e \<notin> set (n # ns) \<or> delete_fails env (fst e)) (caches w)"
    by (auto simp: delete_one_def emit_def Let_def caches_delete_def intro: filter_cong)
  with Cons.IH [of "delete_one env n w"] show ?case by simp
qed

lemma new_events_append: "trace w' = trace w @ es \<Longrightarrow> new_events w w' = es"
  by (simp add: new_events_def)

subsection \<open>The install listener\<close>

lemma install_chain_failed_trace:
  "fst (install_chain env w) = Inl e
   \<Longrightarrow> \<exists>es. trace (snd (install_chain env w)) = trace w @ es \<and> SkipWaiting \<notin> set es"
  by (auto simp: install_chain_def cache_addAll_def emit_def Let_def
      split: if_splits prod.splits sum.splits)

text \<open>
  The chain of the install listener ends in a \<open>.catch\<close> that logs. With a network that
  rejects the fetch of a manifest URL, the promise handed to \<open>waitUntil\<close> is fulfilled,
  not rejected.
\<close>

theorem install_failure_counterexample:
  "net (calm_env offline) (asset_request (location (calm_env offline)) ''/manifest.json'') = None
   \<and> fst (install_listener (calm_env offline) (idle [])) = Fulfilled
   \<and> trace (snd (install_listener (calm_env offline) (idle [])))
       = [CacheOpen STATIC_CACHE,
          Fetch (asset_request (app_url ''/sw.js'' []) ''/''),
          Fetch (asset_request (app_url ''/sw.js'' []) ''/manifest.json''),
          Fetch (asset_request (app_url ''/sw.js'' []) ''/favicon.ico''),
          ConsoleError ''Service Worker install failed:'']"
  by (simp add: install_listener_def install_chain_def cache_addAll_def fetched_ok_def
      STATIC_ASSETS_def emit_def calm_env_def offline_def idle_def split: prod.splits sum.splits)

lemma install_chain_fails:
  assumes "open_fails env STATIC_CACHE
         \<or> list_ex (\<lambda>path. net env (asset_request (location env) path) = None) STATIC_ASSETS"
  shows "\<exists>e. fst (install_chain env w) = Inl e"
  using assms
  by (auto simp: install_chain_def cache_addAll_def fetched_ok_def STATIC_ASSETS_def Let_def
      split: prod.splits sum.splits)

text \<open>
  Claim C4, as the code has it. The promise that the install listener hands to
  \<open>waitUntil\<close> is always fulfilled. When the static store cannot be opened or the fetch
  of a manifest URL rejects, the failure is logged with \<open>console.error\<close> and
  \<open>skipWaiting\<close> is not called; the failure is not passed on to the browser.
\<close>

theorem install_failure_is_swallowed:
  "fst (install_listener env w) = Fulfilled
   \<and> (open_fails env STATIC_CACHE
        \<or> list_ex (\<lambda>path. net env (asset_request (location env) path) = None) STATIC_ASSETS
      \<longrightarrow> ConsoleError ''Service Worker install failed:''
            \<in> set (new_events w (snd (install_listener env w)))
        \<and> SkipWaiting \<notin> set (new_events w (snd (install_listener env w))))"
proof -
  have fulfilled: "fst (install_listener env w) = Fulfilled"
    by (simp add: install_listener_def split: prod.splits sum.splits)
  have "ConsoleError ''Service Worker install failed:'' \<in> set (new_events w (snd (install_listener env w)))
        \<and> SkipWaiting \<notin> set (new_events w (snd (install_listener env w)))"
    if "open_fails env STATIC_CACHE
        \<or> list_ex (\<lambda>path. net env (asset_request (location env) path) = None) STATIC_ASSETS"
  proof -
    from install_chain_fails [OF that] obtain e where e: "fst (install_chain env w) = Inl e" ..
    from install_chain_failed_trace [OF e] obtain es where
      es: "trace (snd (install_chain env w)) = trace w @ es" and no_skip: "SkipWaiting \<notin> set es"
      by blast
    from e es have "trace (snd (install_listener env w))
        = trace w @ (es @ [ConsoleError ''Service Worker install failed:''])"
      by (cases "install_chain env w") (simp add: install_listener_def emit_def)
    then have "new_events w (snd (install_listener env w))
        = es @ [ConsoleError ''Service Worker install failed:'']"
      by (rule new_events_append)
    with no_skip show ?thesis by simp
  qed
  with fulfilled show ?thesis by blast
qed

theorem install_failure_is_swallowed_witness:
  "list_ex (\<lambda>path. net (calm_env offline) (asset_request (location (calm_env offline)) path) = None)
     STATIC_ASSETS
   \<and> fst (install_listener (calm_env offline) (idle [])) = Fulfilled
   \<and> ConsoleError ''Service Worker install failed:''
       \<in> set (new_events (idle []) (snd (install_listener (calm_env offline) (idle []))))
   \<and> SkipWaiting \<notin> set (new_events (idle []) (snd (install_listener (calm_env offline) (idle []))))"
proof -
  have a: "list_ex (\<lambda>path. net (calm_env offline) (asset_request (location (calm_env offline)) path) = None)
     STATIC_ASSETS"
    by (simp add: STATIC_ASSETS_def calm_env_def offline_def)
  from install_failure_is_swallowed [of "calm_env offline" "idle []"] a show ?thesis by simp
qed

subsection \<open>The activate listener\<close>

text \<open>
  \<open>clients.claim()\<close> is a \<open>.then\<close> step after the deletions, before the final
  \<open>.catch\<close>. When the enumeration of the stores rejects, the claim step does not occur.
\<close>

theorem activate_claim_counterexample:
  "keys_fails no_enumeration
   \<and> ClientsClaim \<notin> set (trace (snd (activate_listener no_enumeration (idle root_storage))))"
  by (simp add: no_enumeration_def activate_listener_def activate_chain_def emit_def idle_def)

text \<open>
  Claim C5, as the code has it. The promise that the activate listener hands to
  \<open>waitUntil\<close> is always fulfilled. When the enumeration or a deletion of a stale store
  rejects, the failure is only logged with \<open>console.error\<close>, and \<open>clients.claim()\<close> is
  not called; it is called when the enumeration and every deletion succeed.
\<close>

theorem activate_failure_skips_claim:
  "fst (activate_listener env w) = Fulfilled
   \<and> (keys_fails env \<or> list_ex (delete_fails env) (filter is_stale (caches_keys (caches w)))
      \<longrightarrow> ConsoleError ''Service Worker activation failed:''
            \<in> set (new_events w (snd (activate_listener env w)))
        \<and> ClientsClaim \<notin> set (new_events w (snd (activate_listener env w))))
   \<and> (\<not> keys_fails env \<and> \<not> list_ex (delete_fails env) (filter is_stale (caches_keys (caches w)))
      \<longrightarrow> ClientsClaim \<in> set (new_events w (snd (activate_listener env w))))"
proof -
  let ?stale = "filter is_stale (caches_keys (caches w))"
  have fulfilled: "fst (activate_listener env w) = Fulfilled"
    by (simp add: activate_listener_def split: prod.splits sum.splits)
  have k: "new_events w (snd (activate_listener env w))
             = [ConsoleError ''Service Worker activation failed:'']" if "keys_fails env"
    using that by (simp add: activate_listener_def activate_chain_def emit_def new_events_def)
  have d: "new_events w (snd (activate_listener env w))
             = map CacheDelete ?stale @ [ConsoleError ''Service Worker activation failed:'']"
    if "\<not> keys_fails env" "list_ex (delete_fails env) ?stale"
    using that
    by (simp add: activate_listener_def activate_chain_def emit_def new_events_def Let_def
        trace_fold_delete)
  have c: "new_events w (snd (activate_listener env w)) = map CacheDelete ?stale @ [ClientsClaim]"
    if "\<not> keys_fails env" "\<not> list_ex (delete_fails env) ?stale"
    using that
    by (simp add: activate_listener_def activate_chain_def emit_def new_events_def Let_def
        trace_fold_delete)
  show ?thesis
    using fulfilled k d c by (cases "keys_fails env") auto
qed

theorem activate_failure_skips_claim_witness:
  "keys_fails no_enumeration
   \<and> fst (activate_listener no_enumeration (idle root_storage)) = Fulfilled
   \<and> ConsoleError ''Service Worker activation failed:''
       \<in> set (new_events (idle root_storage) (snd (activate_listener no_enumeration (idle root_storage))))
   \<and> ClientsClaim \<notin> set (new_events (idle root_storage) (snd (activate_listener no_enumeration (idle root_storage))))
   \<and> \<not> keys_fails (calm_env offline)
   \<and> ClientsClaim \<in> set (new_events (idle root_storage) (snd (activate_listener (calm_env offline) (idle root_storage))))"
proof -
  have a: "keys_fails no_enumeration" by (simp add: no_enumeration_def)
  have b: "\<not> keys_fails (calm_env offline)
     \<and> \<not> list_ex (delete_fails (calm_env offline)) (filter is_stale (caches_keys (caches (idle root_storage))))"
    by (simp add: calm_env_def list_ex_iff)
  from activate_failure_skips_claim [of no_enumeration "idle root_storage"]
    activate_failure_skips_claim [of "calm_env offline" "idle root_storage"] a b
  show ?thesis by simp
qed

lemma is_stale_live: "is_stale n \<longleftrightarrow> n \<notin> {''static-v1'', ''dynamic-v1'', ''ggcasecatalogs-v1''}"
  by (simp add: is_stale_def STATIC_CACHE_def DYNAMIC_CACHE_def CACHE_NAME_def)

text \<open>
  Claim C9. When the enumeration succeeds, the activate listener asks for the deletion
  of exactly the existing stores whose name is not \<open>static-v1\<close>, \<open>dynamic-v1\<close> or
  \<open>ggcasecatalogs-v1\<close>; afterwards the storage holds the stores of these three names,
  untouched, and no other store but one whose deletion rejected. Of the stores
  \<open>static-v1\<close>, \<open>dynamic-v1\<close> and \<open>old-v0\<close> only \<open>old-v0\<close> is deleted.
\<close>

theorem activate_deletes_stale_stores:
  assumes "\<not> keys_fails env"
  shows "filter is_cache_write (new_events w (snd (activate_listener env w)))
           = map CacheDelete
               (filter (\<lambda>n. n \<notin> {''static-v1'', ''dynamic-v1'', ''ggcasecatalogs-v1''})
                  (caches_keys (caches w)))
       \<and> caches (snd (activate_listener env w))
           = filter (\<lambda>e. fst e \<in> {''static-v1'', ''dynamic-v1'', ''ggcasecatalogs-v1''}
                          \<or> delete_fails env (fst e)) (caches w)
       \<and> filter (\<lambda>e. fst e \<in> {''static-v1'', ''dynamic-v1'', ''ggcasecatalogs-v1''})
           (caches (snd (activate_listener env w)))
         = filter (\<lambda>e. fst e \<in> {''static-v1'', ''dynamic-v1'', ''ggcasecatalogs-v1''}) (caches w)"
proof -
  let ?live = "{''static-v1'', ''dynamic-v1'', ''ggcasecatalogs-v1''}"
  let ?stale = "filter is_stale (caches_keys (caches w))"
  have st: "?stale = filter (\<lambda>n. n \<notin> ?live) (caches_keys (caches w))"
    using is_stale_live by (auto intro: filter_cong)
  have cw: "filter is_cache_write (map CacheDelete ns) = map CacheDelete ns" for ns
    by (induction ns) simp_all
  have tr: "new_events w (snd (activate_listener env w))
      = map CacheDelete ?stale
        @ [if list_ex (delete_fails env) ?stale
           then ConsoleError ''Service Worker activation failed:'' else ClientsClaim]"
    using assms
    by (simp add: activate_listener_def activate_chain_def emit_def new_events_def Let_def
        trace_fold_delete)
  have ca: "caches (snd (activate_listener env w))
      = filter (\<lambda>e. fst e \<notin> set ?stale \<or> delete_fails env (fst e)) (caches w)"
    using assms
    by (simp add: activate_listener_def activate_chain_def emit_def Let_def caches_fold_delete)
  have mem: "fst e \<notin> set ?stale \<longleftrightarrow> fst e \<in> ?live" if "e \<in> set (caches w)" for e
    using that is_stale_live [of "fst e"] by (auto simp: caches_keys_def)
  have ca': "caches (snd (activate_listener env w))
      = filter (\<lambda>e. fst e \<in> ?live \<or> delete_fails env (fst e)) (caches w)"
    unfolding ca
  proof (rule filter_cong [OF refl])
    fix e assume "e \<in> set (caches w)"
    from mem [OF this]
    show "(fst e \<notin> set ?stale \<or> delete_fails env (fst e))
        = (fst e \<in> ?live \<or> delete_fails env (fst e))"
      by simp
  qed
  have "filter is_cache_write (new_events w (snd (activate_listener env w))) = map CacheDelete ?stale"
    unfolding tr by (simp add: cw)
  moreover have "filter (\<lambda>e. fst e \<in> ?live) (caches (snd (activate_listener env w)))
      = filter (\<lambda>e. fst e \<in> ?live) (caches w)"
    unfolding ca' by (auto intro: filter_cong)
  ultimately show ?thesis using st ca' by simp
qed

theorem activate_deletes_stale_stores_witness:
  "\<not> keys_fails (calm_env offline)
   \<and> caches_keys three_stores = [''static-v1'', ''dynamic-v1'', ''old-v0'']
   \<and> filter is_cache_write (new_events (idle three_stores)
        (snd (activate_listener (calm_env offline) (idle three_stores)))) = [CacheDelete ''old-v0'']
   \<and> caches (snd (activate_listener (calm_env offline) (idle three_stores)))
       = [(''static-v1'', [(app_url ''/'' [], ok_response ''installed'')]), (''dynamic-v1'', [])]"
proof -
  have a: "\<not> keys_fails (calm_env offline)" by (simp add: calm_env_def)
  have b: "caches_keys three_stores = [''static-v1'', ''dynamic-v1'', ''old-v0'']"
    by (simp add: three_stores_def caches_keys_def)
  have c: "delete_fails (calm_env offline) = (\<lambda>n. False)" by (simp add: calm_env_def)
  from activate_deletes_stale_stores [OF a, of "idle three_stores"] a b c show ?thesis
    by (simp add: idle_def three_stores_def)
qed

end
